theory Spec2Isabelle
  imports Complex_Main
begin

section \<open>Numbers\<close>

text \<open>
  Every quantity of the calculator is a TypeScript \<open>number\<close>. The model keeps the four
  kinds of value the code can meet: a finite number, the two infinities (the last
  threshold of every table is \<open>Infinity\<close>) and NaN. Comparisons and the special
  values follow IEEE 754: every comparison with NaN is false, \<open>x / 0\<close> is an infinity
  or NaN and never an exception.

  Finite values are exact reals: the rounding of a result to the nearest double, the
  overflow of a large result to an infinity and the sign of zero are not modelled (a
  zero divisor counts as \<open>+0\<close>). The statements proved below are therefore limited
  to what does not depend on them: they compare stored values, follow the control
  flow, equate two computations made of the same operations in the same order, or
  use operations whose result is the same in doubles (a product or a quotient of 0,
  a sum with 0, a negation, the amounts of the documented example). Where a
  statement of the specification holds in exact arithmetic only, it is not stated.
\<close>

datatype number = Fin real | PInf | NInf | NaN

fun is_finite :: "number \<Rightarrow> bool" where
  "is_finite (Fin x) = True"
| "is_finite PInf = False"
| "is_finite NInf = False"
| "is_finite NaN = False"

text \<open>\<open>a <= b\<close>\<close>

fun num_le :: "number \<Rightarrow> number \<Rightarrow> bool" where
  "num_le (Fin a) (Fin b) = (a \<le> b)"
| "num_le (Fin a) PInf = True"
| "num_le (Fin a) NInf = False"
| "num_le PInf PInf = True"
| "num_le PInf (Fin b) = False"
| "num_le PInf NInf = False"
| "num_le NInf (Fin b) = True"
| "num_le NInf PInf = True"
| "num_le NInf NInf = True"
| "num_le NaN b = False"
| "num_le a NaN = False"

text \<open>\<open>a < b\<close>\<close>

fun num_lt :: "number \<Rightarrow> number \<Rightarrow> bool" where
  "num_lt (Fin a) (Fin b) = (a < b)"
| "num_lt (Fin a) PInf = True"
| "num_lt (Fin a) NInf = False"
| "num_lt PInf PInf = False"
| "num_lt PInf (Fin b) = False"
| "num_lt PInf NInf = False"
| "num_lt NInf (Fin b) = True"
| "num_lt NInf PInf = True"
| "num_lt NInf NInf = False"
| "num_lt NaN b = False"
| "num_lt a NaN = False"

text \<open>\<open>a > b\<close> and \<open>a >= b\<close> are the comparisons above with the operands exchanged.\<close>

definition num_gt :: "number \<Rightarrow> number \<Rightarrow> bool" where
  "num_gt a b = num_lt b a"

definition num_ge :: "number \<Rightarrow> number \<Rightarrow> bool" where
  "num_ge a b = num_le b a"

text \<open>\<open>a == b\<close> (and \<open>a === b\<close>) on numbers: NaN equals nothing, not even itself.\<close>

definition num_eq :: "number \<Rightarrow> number \<Rightarrow> bool" where
  "num_eq a b = (a = b \<and> a \<noteq> NaN)"

fun num_neg :: "number \<Rightarrow> number" where
  "num_neg (Fin a) = Fin (- a)"
| "num_neg PInf = NInf"
| "num_neg NInf = PInf"
| "num_neg NaN = NaN"

text \<open>\<open>a + b\<close>\<close>

fun num_add :: "number \<Rightarrow> number \<Rightarrow> number" where
  "num_add (Fin a) (Fin b) = Fin (a + b)"
| "num_add (Fin a) PInf = PInf"
| "num_add (Fin a) NInf = NInf"
| "num_add PInf (Fin b) = PInf"
| "num_add PInf PInf = PInf"
| "num_add PInf NInf = NaN"
| "num_add NInf (Fin b) = NInf"
| "num_add NInf PInf = NaN"
| "num_add NInf NInf = NInf"
| "num_add NaN b = NaN"
| "num_add a NaN = NaN"

text \<open>\<open>a - b\<close>\<close>

definition num_sub :: "number \<Rightarrow> number \<Rightarrow> number" where
  "num_sub a b = num_add a (num_neg b)"

text \<open>An infinity with the sign of a finite factor; \<open>Infinity * 0\<close> is NaN.\<close>

definition inf_times :: "bool \<Rightarrow> real \<Rightarrow> number" where
  "inf_times positive a =
     (if a = 0 then NaN else if (0 < a) = positive then PInf else NInf)"

text \<open>\<open>a * b\<close>\<close>

fun num_mul :: "number \<Rightarrow> number \<Rightarrow> number" where
  "num_mul (Fin a) (Fin b) = Fin (a * b)"
| "num_mul (Fin a) PInf = inf_times True a"
| "num_mul (Fin a) NInf = inf_times False a"
| "num_mul PInf (Fin b) = inf_times True b"
| "num_mul PInf PInf = PInf"
| "num_mul PInf NInf = NInf"
| "num_mul NInf (Fin b) = inf_times False b"
| "num_mul NInf PInf = NInf"
| "num_mul NInf NInf = PInf"
| "num_mul NaN b = NaN"
| "num_mul a NaN = NaN"

text \<open>
  \<open>a / b\<close>. A finite number divided by zero is an infinity of the sign of the
  numerator, \<open>0 / 0\<close> is NaN, a finite number divided by an infinity is zero.
\<close>

fun num_div :: "number \<Rightarrow> number \<Rightarrow> number" where
  "num_div (Fin a) (Fin b) =
     (if b = 0 then (if a = 0 then NaN else if 0 < a then PInf else NInf)
      else Fin (a / b))"
| "num_div (Fin a) PInf = Fin 0"
| "num_div (Fin a) NInf = Fin 0"
| "num_div PInf (Fin b) = (if 0 \<le> b then PInf else NInf)"
| "num_div NInf (Fin b) = (if 0 \<le> b then NInf else PInf)"
| "num_div PInf PInf = NaN"
| "num_div PInf NInf = NaN"
| "num_div NInf PInf = NaN"
| "num_div NInf NInf = NaN"
| "num_div NaN b = NaN"
| "num_div a NaN = NaN"

text \<open>\<open>Math.min(a, b)\<close>: NaN when an argument is NaN.\<close>

fun num_min :: "number \<Rightarrow> number \<Rightarrow> number" where
  "num_min NaN b = NaN"
| "num_min a NaN = NaN"
| "num_min a b = (if num_le a b then a else b)"

section \<open>Data model (types.ts)\<close>

record TaxBracket =
  threshold :: number
  rate :: number

record Province =
  code :: string
  name :: string
  taxBrackets :: "TaxBracket list"

record CalculatorInput =
  annualIncome :: number
  annualMedicalExpenses :: number
  province :: string
  adminFeeRate :: number
  annualPlanFee :: number

record CalculatorResult =
  adminFee :: number
  totalBusinessCost :: number
  requiredPersonalIncome :: number
  savings :: number
  marginalTaxRate :: number
  federalTaxRate :: number
  provincialTaxRate :: number
  annualPlanFee :: number
  breakEven :: number

text \<open>One line of a table: \<open>{ threshold: t, rate: r }\<close>.\<close>

definition bracket :: "number \<Rightarrow> real \<Rightarrow> TaxBracket" where
  "bracket t r = \<lparr>threshold = t, rate = Fin r\<rparr>"

definition FEDERAL_TAX_BRACKETS :: "TaxBracket list" where
  "FEDERAL_TAX_BRACKETS =
     [bracket (Fin 57375) 0.15,
      bracket (Fin 114750) 0.205,
      bracket (Fin 177882) 0.26,
      bracket (Fin 253414) 0.29,
      bracket PInf 0.33]"

definition AB :: Province where
  "AB = \<lparr>code = ''AB'', name = ''Alberta'', taxBrackets =
     [bracket (Fin 151234) 0.1,
      bracket (Fin 181481) 0.12,
      bracket (Fin 241974) 0.13,
      bracket (Fin 362961) 0.14,
      bracket PInf 0.15]\<rparr>"

definition BC :: Province where
  "BC = \<lparr>code = ''BC'', name = ''British Columbia'', taxBrackets =
     [bracket (Fin 49279) 0.0506,
      bracket (Fin 98560) 0.077,
      bracket (Fin 113158) 0.105,
      bracket (Fin 137407) 0.1229,
      bracket (Fin 186306) 0.147,
      bracket (Fin 259829) 0.168,
      bracket PInf 0.205]\<rparr>"

definition MB :: Province where
  "MB = \<lparr>code = ''MB'', name = ''Manitoba'', taxBrackets =
     [bracket (Fin 47564) 0.108,
      bracket (Fin 101200) 0.1275,
      bracket PInf 0.174]\<rparr>"

definition NB :: Province where
  "NB = \<lparr>code = ''NB'', name = ''New Brunswick'', taxBrackets =
     [bracket (Fin 51306) 0.094,
      bracket (Fin 102614) 0.14,
      bracket (Fin 190060) 0.16,
      bracket PInf 0.195]\<rparr>"

definition NL :: Province where
  "NL = \<lparr>code = ''NL'', name = ''Newfoundland and Labrador'', taxBrackets =
     [bracket (Fin 44192) 0.087,
      bracket (Fin 88382) 0.145,
      bracket (Fin 157792) 0.158,
      bracket (Fin 220910) 0.178,
      bracket (Fin 282214) 0.198,
      bracket (Fin 564429) 0.208,
      bracket (Fin 1128858) 0.213,
      bracket PInf 0.218]\<rparr>"

definition NS :: Province where
  "NS = \<lparr>code = ''NS'', name = ''Nova Scotia'', taxBrackets =
     [bracket (Fin 30507) 0.0879,
      bracket (Fin 61015) 0.1495,
      bracket (Fin 95883) 0.1667,
      bracket (Fin 154650) 0.175,
      bracket PInf 0.21]\<rparr>"

definition ON :: Province where
  "ON = \<lparr>code = ''ON'', name = ''Ontario'', taxBrackets =
     [bracket (Fin 52886) 0.0505,
      bracket (Fin 105775) 0.0915,
      bracket (Fin 150000) 0.1116,
      bracket (Fin 220000) 0.1216,
      bracket PInf 0.1316]\<rparr>"

definition PE :: Province where
  "PE = \<lparr>code = ''PE'', name = ''Prince Edward Island'', taxBrackets =
     [bracket (Fin 33328) 0.095,
      bracket (Fin 64656) 0.1347,
      bracket (Fin 105000) 0.166,
      bracket (Fin 140000) 0.1762,
      bracket PInf 0.19]\<rparr>"

definition SK :: Province where
  "SK = \<lparr>code = ''SK'', name = ''Saskatchewan'', taxBrackets =
     [bracket (Fin 53463) 0.105,
      bracket (Fin 152750) 0.125,
      bracket PInf 0.145]\<rparr>"

definition YT :: Province where
  "YT = \<lparr>code = ''YT'', name = ''Yukon'', taxBrackets =
     [bracket (Fin 57375) 0.064,
      bracket (Fin 114750) 0.09,
      bracket (Fin 177882) 0.109,
      bracket (Fin 500000) 0.128,
      bracket PInf 0.15]\<rparr>"

text \<open>
  The registry \<open>PROVINCES\<close> is an object literal with one own property for each
  province code, in the order of the source.
\<close>

definition PROVINCES_entries :: "(string \<times> Province) list" where
  "PROVINCES_entries =
     [(''AB'', AB), (''BC'', BC), (''MB'', MB), (''NB'', NB), (''NL'', NL),
      (''NS'', NS), (''ON'', ON), (''PE'', PE), (''SK'', SK), (''YT'', YT)]"

definition PROVINCES :: "string \<rightharpoonup> Province" where
  "PROVINCES = map_of PROVINCES_entries"

text \<open>
  The expression \<open>PROVINCES[provinceCode]\<close> reads a property of that object. A key
  that is not an own property is looked up in the prototype of every object literal,
  \<open>Object.prototype\<close>, whose properties are functions (and, for \<open>__proto__\<close>, the
  prototype itself): values that are truthy and have no \<open>taxBrackets\<close>. Every other
  key gives \<open>undefined\<close>.
\<close>

datatype property = Undefined | Own Province | Inherited

definition Object_prototype_keys :: "string list" where
  "Object_prototype_keys =
     [''constructor'', ''__defineGetter__'', ''__defineSetter__'', ''hasOwnProperty'',
      ''__lookupGetter__'', ''__lookupSetter__'', ''isPrototypeOf'',
      ''propertyIsEnumerable'', ''toString'', ''valueOf'', ''__proto__'',
      ''toLocaleString'']"

definition PROVINCES_at :: "string \<Rightarrow> property" where
  "PROVINCES_at key =
     (case PROVINCES key of
        Some p \<Rightarrow> Own p
      | None \<Rightarrow> if key \<in> set Object_prototype_keys then Inherited else Undefined)"

section \<open>The calculator (calculator.ts)\<close>

text \<open>
  What a call can throw: \<open>new Error(message)\<close>, and the TypeError of reading a
  property of \<open>undefined\<close>.
\<close>

datatype error = Error string | TypeError

subsection \<open>effectiveTaxRate\<close>

text \<open>
  The \<open>for\<close> loop of \<open>effectiveTaxRate\<close>, with the two variables it updates
  (\<open>totalTax\<close>, \<open>previousThreshold\<close>) as arguments; its value is \<open>totalTax\<close> when the
  loop is left, by \<open>break\<close> or at the end of the table.
\<close>

fun effectiveTaxRate_loop :: "number \<Rightarrow> number \<Rightarrow> number \<Rightarrow> TaxBracket list \<Rightarrow> number" where
  "effectiveTaxRate_loop income totalTax previousThreshold [] = totalTax"
| "effectiveTaxRate_loop income totalTax previousThreshold (b # brackets) =
     (let taxableInBracket = num_sub (num_min income (threshold b)) previousThreshold;
          totalTax' = (if num_gt taxableInBracket (Fin 0)
                       then num_add totalTax (num_mul taxableInBracket (rate b))
                       else totalTax)
      in if num_le income (threshold b) then totalTax'
         else effectiveTaxRate_loop income totalTax' (threshold b) brackets)"

definition effectiveTaxRate :: "number \<Rightarrow> TaxBracket list \<Rightarrow> number" where
  "effectiveTaxRate income brackets =
     (if num_le income (Fin 0) then Fin 0
      else num_div (effectiveTaxRate_loop income (Fin 0) (Fin 0) brackets) income)"

definition effectiveFederalTaxRate :: "number \<Rightarrow> number" where
  "effectiveFederalTaxRate income = effectiveTaxRate income FEDERAL_TAX_BRACKETS"

definition effectiveProvincialTaxRate :: "number \<Rightarrow> Province \<Rightarrow> number" where
  "effectiveProvincialTaxRate income p = effectiveTaxRate income (taxBrackets p)"

subsection \<open>marginalRate\<close>

text \<open>The \<open>for\<close> loop of \<open>marginalRate\<close>: the rate it returns, if it returns one.\<close>

fun marginalRate_loop :: "number \<Rightarrow> TaxBracket list \<Rightarrow> number option" where
  "marginalRate_loop income [] = None"
| "marginalRate_loop income (b # brackets) =
     (if num_le income (threshold b) then Some (rate b)
      else marginalRate_loop income brackets)"

text \<open>
  After the loop the code reads \<open>brackets[brackets.length - 1]!.rate\<close>; on an empty
  table the element is \<open>undefined\<close> and reading its \<open>rate\<close> throws a TypeError.
\<close>

definition marginalRate :: "number \<Rightarrow> TaxBracket list \<Rightarrow> error + number" where
  "marginalRate income brackets =
     (case marginalRate_loop income brackets of
        Some r \<Rightarrow> Inr r
      | None \<Rightarrow> (if brackets = [] then Inl TypeError else Inr (rate (last brackets))))"

definition marginalFederalTaxRate :: "number \<Rightarrow> error + number" where
  "marginalFederalTaxRate income = marginalRate income FEDERAL_TAX_BRACKETS"

definition marginalProvincialTaxRate :: "number \<Rightarrow> Province \<Rightarrow> error + number" where
  "marginalProvincialTaxRate income p = marginalRate income (taxBrackets p)"

subsection \<open>calculate\<close>

text \<open>
  The arithmetic of \<open>calculate\<close> after the two marginal rates are known (the
  statements from \<open>marginalTaxRate\<close> to the returned object).
\<close>

definition comparison :: "CalculatorInput \<Rightarrow> number \<Rightarrow> number \<Rightarrow> CalculatorResult" where
  "comparison input federalRate provincialRate =
     (let marginalRate' = num_add federalRate provincialRate;
          adminFee' = num_mul (annualMedicalExpenses input) (adminFeeRate input);
          totalBusinessCost' =
            num_add (num_add (annualMedicalExpenses input) adminFee')
              (CalculatorInput.annualPlanFee input);
          requiredPersonalIncome' =
            num_div (annualMedicalExpenses input) (num_sub (Fin 1) marginalRate');
          savings' = num_sub requiredPersonalIncome' totalBusinessCost';
          breakEven' =
            num_div
              (num_mul (CalculatorInput.annualPlanFee input) (num_sub (Fin 1) marginalRate'))
              marginalRate'
      in \<lparr>adminFee = adminFee',
          totalBusinessCost = totalBusinessCost',
          requiredPersonalIncome = requiredPersonalIncome',
          savings = savings',
          marginalTaxRate = marginalRate',
          federalTaxRate = federalRate,
          provincialTaxRate = provincialRate,
          annualPlanFee = CalculatorInput.annualPlanFee input,
          breakEven = breakEven'\<rparr>)"

text \<open>
  \<open>calculate\<close>: the three checks in the order of the source, then the two marginal
  rates, then the arithmetic. An exception of a callee leaves \<open>calculate\<close> too. The
  third check, \<open>!province\<close>, fails for \<open>undefined\<close> only. An inherited property passes
  it; the federal rate is computed, and then \<open>marginalProvincialTaxRate\<close> hands the
  \<open>taxBrackets\<close> of that value, which is \<open>undefined\<close>, to the \<open>for ... of\<close> loop of
  \<open>marginalRate\<close>, which throws a TypeError.
\<close>

definition calculate :: "CalculatorInput \<Rightarrow> error + CalculatorResult" where
  "calculate input =
     (if num_le (annualIncome input) (Fin 0)
      then Inl (Error ''annualIncome must be greater than 0'')
      else if num_lt (annualMedicalExpenses input) (Fin 0)
      then Inl (Error ''annualMedicalExpenses must be >= 0'')
      else case PROVINCES_at (province input) of
        Undefined \<Rightarrow> Inl (Error (''Invalid province code: '' @ province input))
      | Own p \<Rightarrow>
          (case marginalFederalTaxRate (annualIncome input) of
             Inl e \<Rightarrow> Inl e
           | Inr federalRate \<Rightarrow>
               (case marginalProvincialTaxRate (annualIncome input) p of
                  Inl e \<Rightarrow> Inl e
                | Inr provincialRate \<Rightarrow> Inr (comparison input federalRate provincialRate)))
      | Inherited \<Rightarrow>
          (case marginalFederalTaxRate (annualIncome input) of
             Inl e \<Rightarrow> Inl e
           | Inr federalRate \<Rightarrow> Inl TypeError))"

section \<open>Notions of the specification\<close>

subsection \<open>The marginal rate as the specification words it\<close>

text \<open>
  The rate of the first bracket, in table order, whose threshold is \<open>>= income\<close>; the
  rate of the last bracket when there is none.
\<close>

definition first_covering_rate :: "number \<Rightarrow> TaxBracket list \<Rightarrow> number" where
  "first_covering_rate income brackets =
     (case List.find (\<lambda>b. num_ge (threshold b) income) brackets of
        Some b \<Rightarrow> rate b
      | None \<Rightarrow> rate (last brackets))"

subsection \<open>Bounds on the rates of a table\<close>

text \<open>Every rate of the table is a finite number between \<open>lo\<close> and \<open>hi\<close>.\<close>

definition rates_between :: "real \<Rightarrow> real \<Rightarrow> TaxBracket list \<Rightarrow> bool" where
  "rates_between lo hi brackets =
     list_all (\<lambda>b. case rate b of Fin r \<Rightarrow> lo \<le> r \<and> r \<le> hi | _ \<Rightarrow> False) brackets"

subsection \<open>Amounts quoted to the cent, example inputs\<close>

text \<open>
  \<open>a \<approx> v\<close> for an amount \<open>v\<close> quoted with two decimals: \<open>a\<close> is a finite number
  less than half a cent away from \<open>v\<close>.
\<close>

definition agrees_to_cent :: "number \<Rightarrow> real \<Rightarrow> bool" where
  "agrees_to_cent a v = (case a of Fin x \<Rightarrow> \<bar>x - v\<bar> < 0.005 | _ \<Rightarrow> False)"

text \<open>The input of the documented example: Ontario, income 100000, expenses 3000.\<close>

definition ontario_example :: CalculatorInput where
  "ontario_example =
     \<lparr>annualIncome = Fin 100000, annualMedicalExpenses = Fin 3000, province = ''ON'',
      adminFeeRate = Fin 0.08, annualPlanFee = Fin 120\<rparr>"


subsection \<open>The table invariant\<close>

text \<open>
  The invariant the data model asks of a bracket table: at least one entry,
  thresholds strictly increasing, rates non-decreasing, the last threshold unbounded.
\<close>

definition thresholds_increasing :: "TaxBracket list \<Rightarrow> bool" where
  "thresholds_increasing brackets = sorted_wrt num_lt (map threshold brackets)"

definition rates_non_decreasing :: "TaxBracket list \<Rightarrow> bool" where
  "rates_non_decreasing brackets = sorted_wrt num_le (map rate brackets)"

definition table_invariant :: "TaxBracket list \<Rightarrow> bool" where
  "table_invariant brackets =
     (brackets \<noteq> [] \<and> thresholds_increasing brackets \<and> rates_non_decreasing brackets \<and>
      threshold (last brackets) = PInf)"

text \<open>Every rate of the table is a finite number.\<close>

definition finite_rates :: "TaxBracket list \<Rightarrow> bool" where
  "finite_rates brackets = list_all (\<lambda>b. is_finite (rate b)) brackets"

text \<open>No threshold of the table is negative.\<close>

definition thresholds_non_negative :: "TaxBracket list \<Rightarrow> bool" where
  "thresholds_non_negative brackets = list_all (\<lambda>b. num_ge (threshold b) (Fin 0)) brackets"

text \<open>The federal table and the table of each entry of the registry.\<close>

definition compiled_in_tables :: "TaxBracket list list" where
  "compiled_in_tables = FEDERAL_TAX_BRACKETS # map (\<lambda>(c, p). taxBrackets p) PROVINCES_entries"

subsection \<open>The effective rate as the specification words it\<close>

text \<open>
  The brackets the walk visits, from the lowest upward: all up to and including the
  first one with \<open>income <= threshold\<close> (the whole table when there is none).
\<close>

definition walked :: "number \<Rightarrow> TaxBracket list \<Rightarrow> TaxBracket list" where
  "walked income brackets =
     take (Suc (length (takeWhile (\<lambda>b. \<not> num_le income (threshold b)) brackets))) brackets"

text \<open>Each bracket with its previous threshold, which starts at 0.\<close>

definition with_previous :: "TaxBracket list \<Rightarrow> (number \<times> TaxBracket) list" where
  "with_previous brackets = zip (Fin 0 # map threshold brackets) brackets"

text \<open>
  The range of a bracket is \<open>[previousThreshold, threshold)\<close>. It overlaps
  \<open>[0, income)\<close> when the two ranges have a point in common, that is when each lower
  end lies below each upper end (lemma \<open>overlaps_iff_intersection\<close>).
\<close>

definition overlaps :: "number \<Rightarrow> number \<times> TaxBracket \<Rightarrow> bool" where
  "overlaps income pb =
     (case pb of (previousThreshold, b) \<Rightarrow>
        num_lt previousThreshold (threshold b) \<and> num_lt previousThreshold income \<and>
        num_lt (Fin 0) (threshold b) \<and> num_lt (Fin 0) income)"

text \<open>\<open>rate_i * (min(income, threshold_i) - previousThreshold)\<close>\<close>

definition contribution :: "number \<Rightarrow> number \<times> TaxBracket \<Rightarrow> number" where
  "contribution income pb =
     (case pb of (previousThreshold, b) \<Rightarrow>
        num_mul (rate b) (num_sub (num_min income (threshold b)) previousThreshold))"

text \<open>The liability: the contributions of the overlapping brackets, added up in order.\<close>

definition liability :: "number \<Rightarrow> TaxBracket list \<Rightarrow> number" where
  "liability income brackets =
     foldl num_add (Fin 0)
       (map (contribution income)
          (filter (overlaps income) (with_previous (walked income brackets))))"

text \<open>The liability divided by the income, and exactly 0 for an income \<open><= 0\<close>.\<close>

definition effectiveRate_spec :: "number \<Rightarrow> TaxBracket list \<Rightarrow> number" where
  "effectiveRate_spec income brackets =
     (if num_le income (Fin 0) then Fin 0 else num_div (liability income brackets) income)"

section \<open>Basic facts\<close>

subsection \<open>Numbers\<close>

lemma num_le_trans: "num_le a b \<Longrightarrow> num_le b c \<Longrightarrow> num_le a c"
  by (cases a; cases b; cases c) auto

lemma num_le_refl_finite: "is_finite a \<Longrightarrow> num_le a a"
  by (cases a) simp_all

lemma num_le_lt_trans: "num_le a b \<Longrightarrow> num_lt b c \<Longrightarrow> num_lt a c"
  by (cases a; cases b; cases c) auto

lemma num_lt_PInf: "\<not> num_lt PInf a"
  by (cases a) simp_all

lemma num_lt_min_iff: "num_lt p (num_min a b) \<longleftrightarrow> num_lt p a \<and> num_lt p b"
  by (cases p; cases a; cases b) auto

lemma num_gt_not_le: "num_gt a (Fin 0) \<Longrightarrow> \<not> num_le a (Fin 0)"
  by (cases a) (simp_all add: num_gt_def)

lemma num_ge_not_lt: "num_ge a (Fin 0) \<Longrightarrow> \<not> num_lt a (Fin 0)"
  by (cases a) (simp_all add: num_ge_def)

lemma num_add_zero_left: "num_add (Fin 0) a = a"
  by (cases a) simp_all

lemma num_mul_commute: "num_mul a b = num_mul b a"
  by (cases a; cases b) (simp_all add: mult.commute)

lemma num_gt_sub_zero: "num_gt (num_sub a b) (Fin 0) \<longleftrightarrow> num_lt b a"
  by (cases a; cases b) (simp_all add: num_gt_def num_sub_def)

lemma num_eq_refl: "a \<noteq> NaN \<Longrightarrow> num_eq a a"
  by (simp add: num_eq_def)

subsection \<open>marginalRate\<close>

lemma marginalRate_loop_find:
  "marginalRate_loop income brackets =
     map_option rate (List.find (\<lambda>b. num_ge (threshold b) income) brackets)"
  by (induction brackets) (simp_all add: num_ge_def)

lemma marginalRate_Cons:
  "marginalRate income (b # brackets) =
     (if num_le income (threshold b) then Inr (rate b)
      else if brackets = [] then Inr (rate b) else marginalRate income brackets)"
  by (simp add: marginalRate_def split: option.split)

lemma marginalRate_in_rates:
  "brackets \<noteq> [] \<Longrightarrow> \<exists>b\<in>set brackets. marginalRate income brackets = Inr (rate b)"
proof (induction brackets)
  case Nil
  then show ?case by simp
next
  case (Cons b brackets)
  then show ?case by (auto simp: marginalRate_Cons)
qed

lemma marginalRate_between:
  assumes "brackets \<noteq> []" and "rates_between lo hi brackets"
  shows "\<exists>r. marginalRate income brackets = Inr (Fin r) \<and> lo \<le> r \<and> r \<le> hi"
proof -
  from marginalRate_in_rates [OF assms(1)] obtain b
    where b: "b \<in> set brackets" "marginalRate income brackets = Inr (rate b)"
    by blast
  from assms(2) b(1) obtain r where "rate b = Fin r" "lo \<le> r" "r \<le> hi"
    by (cases "rate b") (auto simp: rates_between_def list_all_iff)
  with b(2) show ?thesis by auto
qed

subsection \<open>The compiled-in tables\<close>

lemma federal_rates: "FEDERAL_TAX_BRACKETS \<noteq> [] \<and> rates_between 0.15 0.33 FEDERAL_TAX_BRACKETS"
  by (simp add: FEDERAL_TAX_BRACKETS_def rates_between_def bracket_def)

lemma PROVINCES_cases:
  "PROVINCES c = Some p \<Longrightarrow> p \<in> {AB, BC, MB, NB, NL, NS, ON, PE, SK, YT}"
  by (auto simp: PROVINCES_def PROVINCES_entries_def split: if_splits)

lemma provincial_rates:
  assumes "PROVINCES c = Some p"
  shows "taxBrackets p \<noteq> [] \<and> rates_between 0.0505 0.218 (taxBrackets p)"
proof -
  have "\<forall>q\<in>{AB, BC, MB, NB, NL, NS, ON, PE, SK, YT}.
          taxBrackets q \<noteq> [] \<and> rates_between 0.0505 0.218 (taxBrackets q)"
    by (simp add: AB_def BC_def MB_def NB_def NL_def NS_def ON_def PE_def SK_def YT_def
        rates_between_def bracket_def)
  with PROVINCES_cases [OF assms] show ?thesis by blast
qed

lemma PROVINCES_ON: "PROVINCES ''ON'' = Some ON"
  by (simp add: PROVINCES_def PROVINCES_entries_def)

subsection \<open>calculate\<close>

lemma comparison_fields:
  "adminFee (comparison input f g) = num_mul (annualMedicalExpenses input) (adminFeeRate input)"
  "totalBusinessCost (comparison input f g) =
     num_add (num_add (annualMedicalExpenses input)
                (num_mul (annualMedicalExpenses input) (adminFeeRate input)))
       (CalculatorInput.annualPlanFee input)"
  "requiredPersonalIncome (comparison input f g) =
     num_div (annualMedicalExpenses input) (num_sub (Fin 1) (num_add f g))"
  "savings (comparison input f g) =
     num_sub (requiredPersonalIncome (comparison input f g))
       (totalBusinessCost (comparison input f g))"
  "marginalTaxRate (comparison input f g) = num_add f g"
  "federalTaxRate (comparison input f g) = f"
  "provincialTaxRate (comparison input f g) = g"
  "annualPlanFee (comparison input f g) = CalculatorInput.annualPlanFee input"
  "breakEven (comparison input f g) =
     num_div (num_mul (CalculatorInput.annualPlanFee input) (num_sub (Fin 1) (num_add f g)))
       (num_add f g)"
  by (simp_all add: comparison_def Let_def)

lemma calculate_valid:
  assumes "\<not> num_le (annualIncome input) (Fin 0)"
    and "\<not> num_lt (annualMedicalExpenses input) (Fin 0)"
    and "PROVINCES (province input) = Some p"
  shows "\<exists>f g. 0.15 \<le> f \<and> f \<le> 0.33 \<and> 0.0505 \<le> g \<and> g \<le> 0.218 \<and>
           marginalFederalTaxRate (annualIncome input) = Inr (Fin f) \<and>
           marginalProvincialTaxRate (annualIncome input) p = Inr (Fin g) \<and>
           calculate input = Inr (comparison input (Fin f) (Fin g))"
proof -
  from federal_rates marginalRate_between obtain f
    where f: "marginalRate (annualIncome input) FEDERAL_TAX_BRACKETS = Inr (Fin f)"
      "0.15 \<le> f" "f \<le> 0.33"
    by blast
  from provincial_rates [OF assms(3)] marginalRate_between obtain g
    where g: "marginalRate (annualIncome input) (taxBrackets p) = Inr (Fin g)"
      "0.0505 \<le> g" "g \<le> 0.218"
    by blast
  have "calculate input = Inr (comparison input (Fin f) (Fin g))"
    using assms f(1) g(1)
    by (simp add: calculate_def PROVINCES_at_def marginalFederalTaxRate_def
        marginalProvincialTaxRate_def)
  with f g show ?thesis
    by (auto simp: marginalFederalTaxRate_def marginalProvincialTaxRate_def)
qed

lemma calculate_at_100000_ON:
  assumes "annualIncome input = Fin 100000" and "province input = ''ON''"
    and "\<not> num_lt (annualMedicalExpenses input) (Fin 0)"
  shows "calculate input = Inr (comparison input (Fin 0.205) (Fin 0.0915))"
proof -
  have "marginalFederalTaxRate (Fin 100000) = Inr (Fin 0.205)"
    by (simp add: marginalFederalTaxRate_def marginalRate_def FEDERAL_TAX_BRACKETS_def
        bracket_def)
  moreover have "marginalProvincialTaxRate (Fin 100000) ON = Inr (Fin 0.0915)"
    by (simp add: marginalProvincialTaxRate_def marginalRate_def ON_def bracket_def)
  ultimately show ?thesis
    using assms PROVINCES_ON by (simp add: calculate_def PROVINCES_at_def)
qed

lemma calculate_ontario:
  "calculate ontario_example = Inr (comparison ontario_example (Fin 0.205) (Fin 0.0915))"
  by (rule calculate_at_100000_ON) (simp_all add: ontario_example_def)

lemma calculate_invalid_income:
  "num_le (annualIncome input) (Fin 0) \<Longrightarrow>
     calculate input = Inl (Error ''annualIncome must be greater than 0'')"
  by (simp add: calculate_def)

lemma calculate_invalid_expense:
  "\<not> num_le (annualIncome input) (Fin 0) \<Longrightarrow> num_lt (annualMedicalExpenses input) (Fin 0) \<Longrightarrow>
     calculate input = Inl (Error ''annualMedicalExpenses must be >= 0'')"
  by (simp add: calculate_def)

lemma calculate_undefined_province:
  "\<not> num_le (annualIncome input) (Fin 0) \<Longrightarrow> \<not> num_lt (annualMedicalExpenses input) (Fin 0) \<Longrightarrow>
   PROVINCES_at (province input) = Undefined \<Longrightarrow>
     calculate input = Inl (Error (''Invalid province code: '' @ province input))"
  by (simp add: calculate_def)

lemma calculate_inherited_province:
  assumes "\<not> num_le (annualIncome input) (Fin 0)"
    and "\<not> num_lt (annualMedicalExpenses input) (Fin 0)"
    and "PROVINCES_at (province input) = Inherited"
  shows "calculate input = Inl TypeError"
proof -
  from federal_rates marginalRate_between obtain f
    where "marginalRate (annualIncome input) FEDERAL_TAX_BRACKETS = Inr (Fin f)"
    by blast
  with assms show ?thesis
    by (simp add: calculate_def marginalFederalTaxRate_def)
qed

lemma calculate_throws_iff:
  "isl (calculate input) \<longleftrightarrow>
     num_le (annualIncome input) (Fin 0) \<or> num_lt (annualMedicalExpenses input) (Fin 0) \<or>
     PROVINCES (province input) = None"
proof (cases "num_le (annualIncome input) (Fin 0) \<or> num_lt (annualMedicalExpenses input) (Fin 0)")
  case invalid: True
  have "isl (calculate input)"
  proof (cases "num_le (annualIncome input) (Fin 0)")
    case True
    then show ?thesis by (simp add: calculate_invalid_income)
  next
    case False
    with invalid have "num_lt (annualMedicalExpenses input) (Fin 0)" by simp
    with False show ?thesis by (simp add: calculate_invalid_expense)
  qed
  with invalid show ?thesis by blast
next
  case False
  then have valid: "\<not> num_le (annualIncome input) (Fin 0)"
    "\<not> num_lt (annualMedicalExpenses input) (Fin 0)"
    by simp_all
  show ?thesis
  proof (cases "PROVINCES (province input)")
    case None
    then have "PROVINCES_at (province input) = Undefined \<or>
        PROVINCES_at (province input) = Inherited"
      by (simp add: PROVINCES_at_def)
    with valid calculate_undefined_province [of input] calculate_inherited_province [of input]
    have "isl (calculate input)"
      by auto
    with None show ?thesis by simp
  next
    case (Some p)
    from calculate_valid [OF valid Some] obtain f g
      where "calculate input = Inr (comparison input (Fin f) (Fin g))"
      by blast
    with valid Some show ?thesis by simp
  qed
qed

section \<open>C1: the effective rate\<close>

text \<open>
  The test of \<open>overlaps\<close> says that the range of the bracket and the range
  \<open>[0, income)\<close> have a point in common.
\<close>

lemma overlaps_iff_intersection:
  "overlaps income (previousThreshold, b) \<longleftrightarrow>
     (\<exists>y. num_le previousThreshold (Fin y) \<and> num_lt (Fin y) (threshold b) \<and>
          0 \<le> y \<and> num_lt (Fin y) income)"
proof
  assume "overlaps income (previousThreshold, b)"
  then have o: "num_lt previousThreshold (threshold b)" "num_lt previousThreshold income"
    "num_lt (Fin 0) (threshold b)" "num_lt (Fin 0) income"
    by (simp_all add: overlaps_def)
  show "\<exists>y. num_le previousThreshold (Fin y) \<and> num_lt (Fin y) (threshold b) \<and>
          0 \<le> y \<and> num_lt (Fin y) income"
  proof (cases previousThreshold)
    case (Fin p)
    with o have "num_lt (Fin (max p 0)) (threshold b)" "num_lt (Fin (max p 0)) income"
      by (simp_all add: max_def)
    with Fin show ?thesis
      by (intro exI [of _ "max p 0"]) simp
  next
    case NInf
    with o show ?thesis
      by (intro exI [of _ 0]) simp
  next
    case PInf
    with o(1) show ?thesis by (simp add: num_lt_PInf)
  next
    case NaN
    with o(1) show ?thesis by simp
  qed
next
  assume "\<exists>y. num_le previousThreshold (Fin y) \<and> num_lt (Fin y) (threshold b) \<and>
          0 \<le> y \<and> num_lt (Fin y) income"
  then obtain y where y: "num_le previousThreshold (Fin y)" "num_lt (Fin y) (threshold b)"
    "num_le (Fin 0) (Fin y)" "num_lt (Fin y) income"
    by auto
  have "num_lt previousThreshold (threshold b)"
    using y(1,2) by (rule num_le_lt_trans)
  moreover have "num_lt previousThreshold income"
    using y(1,4) by (rule num_le_lt_trans)
  moreover have "num_lt (Fin 0) (threshold b)"
    using y(3,2) by (rule num_le_lt_trans)
  moreover have "num_lt (Fin 0) income"
    using y(3,4) by (rule num_le_lt_trans)
  ultimately show "overlaps income (previousThreshold, b)"
    by (simp add: overlaps_def)
qed

text \<open>
  The test of the code, \<open>taxableInBracket > 0\<close>, is the test of \<open>overlaps\<close> when the
  previous threshold is not negative.
\<close>

lemma overlaps_iff_taxable:
  assumes "num_le (Fin 0) previousThreshold"
  shows "overlaps income (previousThreshold, b) \<longleftrightarrow>
     num_gt (num_sub (num_min income (threshold b)) previousThreshold) (Fin 0)"
proof -
  have "num_lt (Fin 0) (threshold b)" if "num_lt previousThreshold (threshold b)"
    using assms that by (rule num_le_lt_trans)
  moreover have "num_lt (Fin 0) income" if "num_lt previousThreshold income"
    using assms that by (rule num_le_lt_trans)
  ultimately show ?thesis
    by (auto simp: overlaps_def num_gt_sub_zero num_lt_min_iff)
qed

lemma walked_Cons:
  "walked income (b # brackets) =
     b # (if num_le income (threshold b) then [] else walked income brackets)"
  by (simp add: walked_def)

lemma effectiveTaxRate_loop_fold:
  assumes "num_le (Fin 0) previousThreshold" and "thresholds_non_negative brackets"
  shows "effectiveTaxRate_loop income totalTax previousThreshold brackets =
     foldl num_add totalTax
       (map (contribution income)
          (filter (overlaps income)
             (zip (previousThreshold # map threshold brackets) (walked income brackets))))"
  using assms
proof (induction brackets arbitrary: totalTax previousThreshold)
  case Nil
  show ?case by (simp add: walked_def)
next
  case (Cons b brackets)
  from Cons.prems(2) have b: "num_le (Fin 0) (threshold b)"
    and rest: "thresholds_non_negative brackets"
    by (simp_all add: thresholds_non_negative_def num_ge_def)
  note IH = Cons.IH [OF b rest]
  show ?case
    by (simp add: IH walked_Cons Let_def overlaps_iff_taxable [OF Cons.prems(1)]
        contribution_def num_mul_commute)
qed

lemma zip_previous_take:
  "zip (p # map f xs) (take n xs) = zip (p # map f (take n xs)) (take n xs)"
proof (induction xs arbitrary: n p)
  case Nil
  show ?case by simp
next
  case (Cons x xs)
  show ?case
  proof (cases n)
    case 0
    then show ?thesis by simp
  next
    case (Suc m)
    with Cons.IH [of "f x" m] show ?thesis by simp
  qed
qed

text \<open>
  The words of the specification and the code part on a table with negative
  thresholds. In the table below the second bracket has the range \<open>[-20, -10)\<close>, which
  does not overlap \<open>[0, 5)\<close>; the loop taxes it all the same, as \<open>min(5, -10) - (-20)\<close>
  is positive, and returns \<open>(10 * 0.2 + 15 * 0.3) / 5 = 1.3\<close> where the liability of the
  overlapping brackets gives \<open>15 * 0.3 / 5 = 0.9\<close>.
\<close>

theorem effectiveTaxRate_negative_thresholds:
  "table_invariant [bracket (Fin (- 20)) 0.1, bracket (Fin (- 10)) 0.2, bracket PInf 0.3] \<and>
   effectiveTaxRate (Fin 5)
     [bracket (Fin (- 20)) 0.1, bracket (Fin (- 10)) 0.2, bracket PInf 0.3] = Fin 1.3 \<and>
   effectiveRate_spec (Fin 5)
     [bracket (Fin (- 20)) 0.1, bracket (Fin (- 10)) 0.2, bracket PInf 0.3] = Fin 0.9 \<and>
   \<not> num_eq (Fin 1.3) (Fin 0.9)"
  by (simp add: table_invariant_def thresholds_increasing_def rates_non_decreasing_def
      effectiveTaxRate_def effectiveRate_spec_def liability_def with_previous_def walked_def
      overlaps_def contribution_def bracket_def num_gt_def num_sub_def num_eq_def)

text \<open>
  Claim C1, amended. For every table without a negative threshold and every income,
  \<open>effectiveTaxRate\<close> returns the tax liability divided by the income, where the
  liability is accumulated by walking the brackets from the lowest upward, adding
  \<open>rate_i * (min(income, threshold_i) - previousThreshold)\<close> for each bracket whose range
  overlaps \<open>[0, income)\<close>, with \<open>previousThreshold\<close> starting at 0, and stopping at the
  first bracket with \<open>income <= threshold_i\<close>. For every table and every income
  \<open><= 0\<close> it returns exactly 0.
\<close>

theorem effectiveTaxRate_refines_spec:
  "(thresholds_non_negative brackets \<longrightarrow>
      effectiveTaxRate income brackets = effectiveRate_spec income brackets) \<and>
   (num_le income (Fin 0) \<longrightarrow> effectiveTaxRate income brackets = Fin 0)"
proof (intro conjI impI)
  assume nonneg: "thresholds_non_negative brackets"
  have "zip (Fin 0 # map threshold brackets) (walked income brackets) =
      with_previous (walked income brackets)"
    unfolding with_previous_def walked_def by (rule zip_previous_take)
  moreover have "num_le (Fin 0) (Fin 0)"
    by simp
  ultimately
  have "effectiveTaxRate_loop income (Fin 0) (Fin 0) brackets = liability income brackets"
    using nonneg by (simp only: effectiveTaxRate_loop_fold liability_def)
  then show "effectiveTaxRate income brackets = effectiveRate_spec income brackets"
    by (simp add: effectiveTaxRate_def effectiveRate_spec_def)
next
  assume "num_le income (Fin 0)"
  then show "effectiveTaxRate income brackets = Fin 0"
    by (simp add: effectiveTaxRate_def)
qed

text \<open>The federal table at incomes 0 and 100000.\<close>

theorem effectiveTaxRate_refines_spec_witness:
  "thresholds_non_negative FEDERAL_TAX_BRACKETS \<and>
   num_le (Fin 0) (Fin 0) \<and>
   effectiveTaxRate (Fin 0) FEDERAL_TAX_BRACKETS = Fin 0 \<and>
   effectiveRate_spec (Fin 100000) FEDERAL_TAX_BRACKETS = Fin 0.17344375 \<and>
   effectiveTaxRate (Fin 100000) FEDERAL_TAX_BRACKETS = Fin 0.17344375"
proof -
  have nonneg: "thresholds_non_negative FEDERAL_TAX_BRACKETS"
    by (simp add: thresholds_non_negative_def FEDERAL_TAX_BRACKETS_def bracket_def num_ge_def)
  have spec: "effectiveRate_spec (Fin 100000) FEDERAL_TAX_BRACKETS = Fin 0.17344375"
    by (simp add: effectiveRate_spec_def liability_def with_previous_def walked_def
        overlaps_def contribution_def FEDERAL_TAX_BRACKETS_def bracket_def num_sub_def)
  from nonneg spec effectiveTaxRate_refines_spec [of FEDERAL_TAX_BRACKETS "Fin 100000"]
  have code: "effectiveTaxRate (Fin 100000) FEDERAL_TAX_BRACKETS = Fin 0.17344375"
    by simp
  have zero: "num_le (Fin 0) (Fin 0)"
    by simp
  with effectiveTaxRate_refines_spec [of FEDERAL_TAX_BRACKETS "Fin 0"]
  have "effectiveTaxRate (Fin 0) FEDERAL_TAX_BRACKETS = Fin 0"
    by blast
  with nonneg zero spec code show ?thesis by blast
qed

section \<open>C2: the marginal rate is the rate of the first covering bracket\<close>

text \<open>
  Claim C2. On a non-empty table \<open>marginalRate\<close> returns the rate of the first bracket
  whose threshold is \<open>>= income\<close>, and the rate of the last bracket when no bracket
  has such a threshold. For the table \<open>[{T, r1}, {Infinity, r2}]\<close> with a finite
  threshold \<open>T\<close>, the income \<open>T\<close> itself gets \<open>r1\<close> (a boundary belongs to the lower
  bracket) and every income \<open>T + epsilon\<close> with \<open>epsilon > 0\<close> gets \<open>r2\<close>.
\<close>

theorem marginalRate_first_covering:
  "brackets \<noteq> [] \<Longrightarrow>
     marginalRate income brackets = Inr (first_covering_rate income brackets) \<and>
     marginalRate (Fin T) [\<lparr>threshold = Fin T, rate = r1\<rparr>, \<lparr>threshold = PInf, rate = r2\<rparr>]
       = Inr r1 \<and>
     (\<forall>epsilon>0. marginalRate (Fin (T + epsilon))
        [\<lparr>threshold = Fin T, rate = r1\<rparr>, \<lparr>threshold = PInf, rate = r2\<rparr>] = Inr r2)"
  by (simp add: marginalRate_def marginalRate_loop_find first_covering_rate_def num_ge_def
      split: option.split)

text \<open>
  At the federal table: an income on the first threshold, an income above every
  threshold of a table that lacks the unbounded entry, and the two-bracket table.
\<close>

theorem marginalRate_first_covering_witness:
  "FEDERAL_TAX_BRACKETS \<noteq> [] \<and>
   marginalRate (Fin 57375) FEDERAL_TAX_BRACKETS = Inr (Fin 0.15) \<and>
   marginalRate (Fin 300000) (butlast FEDERAL_TAX_BRACKETS) = Inr (Fin 0.29) \<and>
   marginalRate (Fin 100) [bracket (Fin 100) 0.1, bracket PInf 0.2] = Inr (Fin 0.1) \<and>
   marginalRate (Fin (100 + 1 / 1000)) [bracket (Fin 100) 0.1, bracket PInf 0.2] = Inr (Fin 0.2)"
proof -
  have ne: "FEDERAL_TAX_BRACKETS \<noteq> []" "butlast FEDERAL_TAX_BRACKETS \<noteq> []"
    by (simp_all add: FEDERAL_TAX_BRACKETS_def)
  note at_threshold = marginalRate_first_covering
    [OF ne(1), of "Fin 57375" 100 "Fin 0.1" "Fin 0.2"]
  note no_cover = marginalRate_first_covering
    [OF ne(2), of "Fin 300000" 100 "Fin 0.1" "Fin 0.2"]
  from at_threshold have above:
    "(0::real) < 1 / 1000 \<longrightarrow> marginalRate (Fin (100 + 1 / 1000))
       [\<lparr>threshold = Fin 100, rate = Fin 0.1\<rparr>, \<lparr>threshold = PInf, rate = Fin 0.2\<rparr>]
       = Inr (Fin 0.2)"
    by blast
  have "first_covering_rate (Fin 57375) FEDERAL_TAX_BRACKETS = Fin 0.15"
    by (simp add: first_covering_rate_def FEDERAL_TAX_BRACKETS_def bracket_def num_ge_def)
  moreover have "first_covering_rate (Fin 300000) (butlast FEDERAL_TAX_BRACKETS) = Fin 0.29"
    by (simp add: first_covering_rate_def FEDERAL_TAX_BRACKETS_def bracket_def num_ge_def)
  ultimately show ?thesis
    using ne at_threshold no_cover above by (simp add: bracket_def)
qed

section \<open>C3: the documented Ontario example\<close>

text \<open>
  Claim C3. For income 100000, expenses 3000, province ON, fee rate 0.08 and plan fee
  120, \<open>calculate\<close> returns the federal rate 0.205, the provincial rate 0.0915, the
  combined rate 0.2965, the admin fee 240, the total business cost 3360, a required
  personal income of about 4264.39 and savings of about 904.39.
\<close>

theorem calculate_ontario_example:
  "\<exists>r. calculate ontario_example = Inr r \<and>
     federalTaxRate r = Fin 0.205 \<and>
     provincialTaxRate r = Fin 0.0915 \<and>
     marginalTaxRate r = Fin 0.2965 \<and>
     adminFee r = Fin 240 \<and>
     totalBusinessCost r = Fin 3360 \<and>
     agrees_to_cent (requiredPersonalIncome r) 4264.39 \<and>
     agrees_to_cent (savings r) 904.39"
  using calculate_ontario
  by (simp add: comparison_fields ontario_example_def num_sub_def agrees_to_cent_def)

section \<open>C4: when calculate throws\<close>

lemma PROVINCES_at_toString: "PROVINCES_at ''toString'' = Inherited"
  by (simp add: PROVINCES_at_def PROVINCES_def PROVINCES_entries_def Object_prototype_keys_def)

lemma PROVINCES_at_QC: "PROVINCES_at ''QC'' = Undefined"
  by (simp add: PROVINCES_at_def PROVINCES_def PROVINCES_entries_def Object_prototype_keys_def)

text \<open>
  Claim C4 says that \<open>calculate\<close> throws exactly when one of its three checks fails:
  a non-positive income, then negative expenses, then a province code that is not in
  the registry, whose error message carries the code. The first two checks and their
  order are as claimed (\<open>calculate_invalid_income\<close>, \<open>calculate_invalid_expense\<close>), and
  \<open>calculate\<close> throws if and only if one of the three conditions holds
  (\<open>calculate_throws_iff\<close>). But the third check misses the keys that every object
  inherits: \<open>toString\<close> is no province code, and the call throws a TypeError from
  \<open>marginalRate\<close>, not the error that names the code, which a code such as \<open>QC\<close>
  gets.
\<close>

theorem calculate_inherited_key:
  "PROVINCES ''toString'' = None \<and>
   calculate (ontario_example\<lparr>province := ''toString''\<rparr>) = Inl TypeError \<and>
   calculate (ontario_example\<lparr>province := ''QC''\<rparr>)
     = Inl (Error ''Invalid province code: QC'')"
proof -
  have "PROVINCES ''toString'' = None"
    by (simp add: PROVINCES_def PROVINCES_entries_def)
  moreover have "calculate (ontario_example\<lparr>province := ''toString''\<rparr>) = Inl TypeError"
    by (rule calculate_inherited_province)
      (simp_all add: ontario_example_def PROVINCES_at_toString)
  moreover have "calculate (ontario_example\<lparr>province := ''QC''\<rparr>)
      = Inl (Error (''Invalid province code: '' @ province (ontario_example\<lparr>province := ''QC''\<rparr>)))"
    by (rule calculate_undefined_province)
      (simp_all add: ontario_example_def PROVINCES_at_QC)
  ultimately show ?thesis by simp
qed

section \<open>C5: the effective rate and the marginal rate\<close>

text \<open>
  Claim C5 compares two computed numbers: \<open>effectiveRate(income, table)\<close> is to be at
  most \<open>marginalRate(income, table)\<close>. Whether the quotient that \<open>effectiveTaxRate\<close>
  returns stays below the stored rate depends on how its products, its sum and the
  quotient are rounded, which the numbers of this theory leave out; no bound is
  stated here. Rounding apart, the table invariant alone does not give the bound
  either: with a first threshold of \<open>-10\<close> the loop taxes the income 5 from \<open>-10\<close>
  upward, 15 units at the rate 0.2, and the effective rate 0.6 exceeds the marginal
  rate 0.2.
\<close>

lemma effectiveTaxRate_exceeds_marginalRate:
  "table_invariant [bracket (Fin (- 10)) 0.1, bracket PInf 0.2] \<and>
   num_gt (Fin 5) (Fin 0) \<and>
   effectiveTaxRate (Fin 5) [bracket (Fin (- 10)) 0.1, bracket PInf 0.2] = Fin 0.6 \<and>
   marginalRate (Fin 5) [bracket (Fin (- 10)) 0.1, bracket PInf 0.2] = Inr (Fin 0.2) \<and>
   \<not> num_le (Fin 0.6) (Fin 0.2)"
  by (simp add: table_invariant_def thresholds_increasing_def rates_non_decreasing_def
      effectiveTaxRate_def marginalRate_def bracket_def num_gt_def num_sub_def)

section \<open>C6: the marginal rate as a function of the income\<close>

lemma marginalRate_mono:
  assumes "brackets \<noteq> []" and "rates_non_decreasing brackets" and "finite_rates brackets"
    and "num_le a b"
  shows "\<exists>ra rb. marginalRate a brackets = Inr ra \<and> marginalRate b brackets = Inr rb \<and>
           num_le ra rb"
  using assms(1-3)
proof (induction brackets)
  case Nil
  then show ?case by simp
next
  case (Cons x xs)
  from Cons.prems have x: "is_finite (rate x)" and later: "\<forall>y\<in>set xs. num_le (rate x) (rate y)"
    by (simp_all add: finite_rates_def rates_non_decreasing_def)
  show ?case
  proof (cases "num_le a (threshold x)")
    case True
    from marginalRate_in_rates [of "x # xs" b] obtain y
      where y: "y \<in> set (x # xs)" "marginalRate b (x # xs) = Inr (rate y)"
      by blast
    from y(1) x later have "num_le (rate x) (rate y)"
      by (auto intro: num_le_refl_finite)
    with True y(2) show ?thesis
      by (simp add: marginalRate_Cons)
  next
    case False
    with assms(4) have notb: "\<not> num_le b (threshold x)"
      using num_le_trans by blast
    show ?thesis
    proof (cases "xs = []")
      case True
      with False notb x show ?thesis
        by (simp add: marginalRate_Cons num_le_refl_finite)
    next
      case nonempty: False
      from Cons.prems have "rates_non_decreasing xs" "finite_rates xs"
        by (simp_all add: finite_rates_def rates_non_decreasing_def)
      from Cons.IH [OF nonempty this] False notb nonempty show ?thesis
        by (simp add: marginalRate_Cons)
    qed
  qed
qed

text \<open>
  Strictly increasing thresholds alone do not make the marginal rate non-decreasing:
  in the table below the rate falls from 0.5 to 0.1 at the threshold 10, so the
  income 5 has a higher marginal rate than the income 20.
\<close>

theorem marginalRate_not_monotone:
  "thresholds_increasing [bracket (Fin 10) 0.5, bracket PInf 0.1] \<and>
   num_le (Fin 5) (Fin 20) \<and>
   marginalRate (Fin 5) [bracket (Fin 10) 0.5, bracket PInf 0.1] = Inr (Fin 0.5) \<and>
   marginalRate (Fin 20) [bracket (Fin 10) 0.5, bracket PInf 0.1] = Inr (Fin 0.1) \<and>
   \<not> num_le (Fin 0.5) (Fin 0.1)"
  by (simp add: thresholds_increasing_def marginalRate_def bracket_def)

text \<open>
  Claim C6, amended. For a non-empty table with strictly increasing thresholds and
  non-decreasing finite rates, \<open>marginalRate\<close> is a non-decreasing function of the
  income: \<open>a <= b\<close> implies \<open>marginalRate(a) <= marginalRate(b)\<close>.
\<close>

theorem marginalRate_monotone:
  assumes "brackets \<noteq> []" and "thresholds_increasing brackets"
    and "rates_non_decreasing brackets" and "finite_rates brackets"
    and "num_le a b"
  shows "\<exists>ra rb. marginalRate a brackets = Inr ra \<and> marginalRate b brackets = Inr rb \<and>
           num_le ra rb"
  using assms(1,3,4,5) by (rule marginalRate_mono)

text \<open>The federal table at incomes 40000 and 100000.\<close>

theorem marginalRate_monotone_witness:
  "FEDERAL_TAX_BRACKETS \<noteq> [] \<and> thresholds_increasing FEDERAL_TAX_BRACKETS \<and>
   rates_non_decreasing FEDERAL_TAX_BRACKETS \<and> finite_rates FEDERAL_TAX_BRACKETS \<and>
   num_le (Fin 40000) (Fin 100000) \<and>
   marginalRate (Fin 40000) FEDERAL_TAX_BRACKETS = Inr (Fin 0.15) \<and>
   marginalRate (Fin 100000) FEDERAL_TAX_BRACKETS = Inr (Fin 0.205) \<and>
   num_le (Fin 0.15) (Fin 0.205)"
proof -
  have hyps: "FEDERAL_TAX_BRACKETS \<noteq> []" "thresholds_increasing FEDERAL_TAX_BRACKETS"
    "rates_non_decreasing FEDERAL_TAX_BRACKETS" "finite_rates FEDERAL_TAX_BRACKETS"
    "num_le (Fin 40000) (Fin 100000)"
    by (simp_all add: FEDERAL_TAX_BRACKETS_def thresholds_increasing_def
        rates_non_decreasing_def finite_rates_def bracket_def)
  have rates: "marginalRate (Fin 40000) FEDERAL_TAX_BRACKETS = Inr (Fin 0.15)"
    "marginalRate (Fin 100000) FEDERAL_TAX_BRACKETS = Inr (Fin 0.205)"
    by (simp_all add: marginalRate_def FEDERAL_TAX_BRACKETS_def bracket_def)
  from marginalRate_monotone [OF hyps] rates have "num_le (Fin 0.15) (Fin 0.205)"
    by simp
  with hyps rates show ?thesis by blast
qed

section \<open>C7: no expenses\<close>

text \<open>
  With expenses 0 the admin fee is \<open>0 * adminFeeRate\<close>, which is NaN for a fee rate of
  \<open>Infinity\<close> (or NaN), a value no check rejects; and a NaN plan fee makes the total
  business cost NaN, which is not \<open>==\<close> to the plan fee.
\<close>

theorem calculate_zero_expenses_NaN:
  "map_sum id adminFee
     (calculate (ontario_example\<lparr>annualMedicalExpenses := Fin 0, adminFeeRate := PInf\<rparr>))
     = Inr NaN \<and>
   \<not> num_eq NaN (Fin 0) \<and>
   map_sum id totalBusinessCost
     (calculate (ontario_example\<lparr>annualMedicalExpenses := Fin 0,
        CalculatorInput.annualPlanFee := NaN\<rparr>))
     = Inr NaN \<and>
   \<not> num_eq NaN NaN"
  by (simp add: calculate_at_100000_ON ontario_example_def comparison_fields inf_times_def
      num_eq_def)

text \<open>
  Claim C7, amended. For every input with expenses \<open>== 0\<close>, an income above 0, a
  registered province, a finite fee rate and a plan fee that is not NaN,
  \<open>calculate\<close> returns an admin fee \<open>== 0\<close>, a total business cost \<open>==\<close> the plan fee,
  a required personal income \<open>== 0\<close> and savings \<open>==\<close> minus the plan fee.
\<close>

theorem calculate_zero_expenses:
  assumes "num_gt (annualIncome input) (Fin 0)"
    and "num_eq (annualMedicalExpenses input) (Fin 0)"
    and "PROVINCES (province input) = Some p"
    and "is_finite (adminFeeRate input)"
    and "CalculatorInput.annualPlanFee input \<noteq> NaN"
  shows "\<exists>r. calculate input = Inr r \<and>
           num_eq (adminFee r) (Fin 0) \<and>
           num_eq (totalBusinessCost r) (CalculatorInput.annualPlanFee input) \<and>
           num_eq (requiredPersonalIncome r) (Fin 0) \<and>
           num_eq (savings r) (num_neg (CalculatorInput.annualPlanFee input))"
proof -
  from assms(2) have zero: "annualMedicalExpenses input = Fin 0"
    by (simp add: num_eq_def)
  then have "\<not> num_lt (annualMedicalExpenses input) (Fin 0)"
    by simp
  from calculate_valid [OF num_gt_not_le [OF assms(1)] this assms(3)] obtain f g
    where fg: "f \<le> 0.33" "g \<le> 0.218"
      "calculate input = Inr (comparison input (Fin f) (Fin g))"
    by blast
  from assms(4) obtain a where a: "adminFeeRate input = Fin a"
    by (cases "adminFeeRate input") simp_all
  from assms(5) have neg: "num_neg (CalculatorInput.annualPlanFee input) \<noteq> NaN"
    by (cases "CalculatorInput.annualPlanFee input") simp_all
  from fg(1,2) have "1 - (f + g) \<noteq> 0"
    by simp
  with a zero have
    "adminFee (comparison input (Fin f) (Fin g)) = Fin 0"
    "totalBusinessCost (comparison input (Fin f) (Fin g)) = CalculatorInput.annualPlanFee input"
    "requiredPersonalIncome (comparison input (Fin f) (Fin g)) = Fin 0"
    "savings (comparison input (Fin f) (Fin g)) = num_neg (CalculatorInput.annualPlanFee input)"
    by (simp_all add: comparison_fields num_sub_def num_add_zero_left)
  with fg(3) assms(5) neg show ?thesis
    by (simp add: num_eq_def)
qed

text \<open>The documented example with expenses 0.\<close>

theorem calculate_zero_expenses_witness:
  "num_gt (annualIncome (ontario_example\<lparr>annualMedicalExpenses := Fin 0\<rparr>)) (Fin 0) \<and>
   num_eq (Fin 0) (Fin 0) \<and>
   PROVINCES ''ON'' = Some ON \<and>
   is_finite (Fin 0.08) \<and>
   Fin 120 \<noteq> NaN \<and>
   (\<exists>r. calculate (ontario_example\<lparr>annualMedicalExpenses := Fin 0\<rparr>) = Inr r \<and>
      num_eq (adminFee r) (Fin 0) \<and> num_eq (totalBusinessCost r) (Fin 120) \<and>
      num_eq (requiredPersonalIncome r) (Fin 0) \<and> num_eq (savings r) (Fin (- 120)))"
  using calculate_zero_expenses [of "ontario_example\<lparr>annualMedicalExpenses := Fin 0\<rparr>" ON]
    PROVINCES_ON
  by (simp add: ontario_example_def num_gt_def num_eq_def)

section \<open>C8: the break-even amount\<close>




section \<open>C9: the compiled-in tables\<close>

lemma compiled_in_tables_invariant: "list_all table_invariant compiled_in_tables"
  by (simp add: compiled_in_tables_def PROVINCES_entries_def table_invariant_def
      thresholds_increasing_def rates_non_decreasing_def FEDERAL_TAX_BRACKETS_def
      AB_def BC_def MB_def NB_def NL_def NS_def ON_def PE_def SK_def YT_def bracket_def)

text \<open>
  The results need not be finite: infinite expenses pass the checks, and then the
  required personal income is \<open>Infinity\<close> and the savings are NaN.
\<close>

theorem compiled_in_results_not_finite:
  "num_gt (annualIncome (ontario_example\<lparr>annualMedicalExpenses := PInf\<rparr>)) (Fin 0) \<and>
   PROVINCES (province (ontario_example\<lparr>annualMedicalExpenses := PInf\<rparr>)) = Some ON \<and>
   map_sum id requiredPersonalIncome
     (calculate (ontario_example\<lparr>annualMedicalExpenses := PInf\<rparr>)) = Inr PInf \<and>
   map_sum id savings
     (calculate (ontario_example\<lparr>annualMedicalExpenses := PInf\<rparr>)) = Inr NaN \<and>
   \<not> is_finite PInf \<and> \<not> is_finite NaN"
  using PROVINCES_ON
  by (simp add: calculate_at_100000_ON ontario_example_def comparison_fields num_sub_def
      inf_times_def num_gt_def)

text \<open>
  Claim C9, amended. The federal table and the table of each of the ten provinces
  satisfy the table invariant. For every input that passes the checks, the combined
  marginal rate computed by \<open>calculate\<close> lies strictly between 0 and 1, so both
  divisors of \<open>calculate\<close>, \<open>1 - marginalTaxRate\<close> and \<open>marginalTaxRate\<close>, are positive:
  the degenerate rate is out of reach of the compiled-in tables.
\<close>

theorem compiled_in_tables_sound:
  assumes "num_gt (annualIncome input) (Fin 0)"
    and "num_ge (annualMedicalExpenses input) (Fin 0)"
    and "PROVINCES (province input) = Some p"
  shows "list_all table_invariant compiled_in_tables \<and>
         length compiled_in_tables = 11 \<and>
         ran PROVINCES = snd ` set PROVINCES_entries \<and>
         (\<exists>r. calculate input = Inr r \<and>
            num_lt (Fin 0) (marginalTaxRate r) \<and>
            num_lt (marginalTaxRate r) (Fin 1) \<and>
            num_lt (Fin 0) (num_sub (Fin 1) (marginalTaxRate r)))"
proof -
  from calculate_valid [OF num_gt_not_le [OF assms(1)] num_ge_not_lt [OF assms(2)] assms(3)]
  obtain f g
    where fg: "0.15 \<le> f" "f \<le> 0.33" "0.0505 \<le> g" "g \<le> 0.218"
      "calculate input = Inr (comparison input (Fin f) (Fin g))"
    by blast
  have "num_lt (Fin 0) (marginalTaxRate (comparison input (Fin f) (Fin g)))"
    "num_lt (marginalTaxRate (comparison input (Fin f) (Fin g))) (Fin 1)"
    "num_lt (Fin 0) (num_sub (Fin 1) (marginalTaxRate (comparison input (Fin f) (Fin g))))"
    using fg(1-4) by (simp_all add: comparison_fields num_sub_def)
  moreover have "ran PROVINCES = snd ` set PROVINCES_entries"
    unfolding PROVINCES_def
    by (rule ran_distinct) (simp add: PROVINCES_entries_def)
  moreover have "length compiled_in_tables = 11"
    by (simp add: compiled_in_tables_def PROVINCES_entries_def)
  ultimately show ?thesis
    using fg(5) compiled_in_tables_invariant by simp
qed

text \<open>The documented example.\<close>

theorem compiled_in_tables_sound_witness:
  "num_gt (annualIncome ontario_example) (Fin 0) \<and>
   num_ge (annualMedicalExpenses ontario_example) (Fin 0) \<and>
   PROVINCES (province ontario_example) = Some ON \<and>
   list_all table_invariant compiled_in_tables \<and>
   (\<exists>r. calculate ontario_example = Inr r \<and>
      num_lt (Fin 0) (marginalTaxRate r) \<and> num_lt (marginalTaxRate r) (Fin 1) \<and>
      num_lt (Fin 0) (num_sub (Fin 1) (marginalTaxRate r)))"
proof -
  have hyps: "num_gt (annualIncome ontario_example) (Fin 0)"
    "num_ge (annualMedicalExpenses ontario_example) (Fin 0)"
    "PROVINCES (province ontario_example) = Some ON"
    using PROVINCES_ON by (simp_all add: ontario_example_def num_gt_def num_ge_def)
  from compiled_in_tables_sound [OF hyps] hyps show ?thesis
    by blast
qed

section \<open>C10: the fees are not validated\<close>

text \<open>
  Claim C10. \<open>calculate\<close> does not check the fee rate or the plan fee: for an income
  above 0, expenses of at least 0 and a registered province it returns for every fee
  rate and every plan fee, negative ones included, and both go unchanged into the
  admin fee, the total business cost, the savings and the break-even amount.
\<close>

theorem calculate_fees_unvalidated:
  assumes "num_gt (annualIncome input) (Fin 0)"
    and "num_ge (annualMedicalExpenses input) (Fin 0)"
    and "PROVINCES (province input) = Some p"
  shows "\<exists>r. calculate (input\<lparr>adminFeeRate := fee_rate, CalculatorInput.annualPlanFee := plan_fee\<rparr>)
             = Inr r \<and>
           adminFee r = num_mul (annualMedicalExpenses input) fee_rate \<and>
           totalBusinessCost r =
             num_add (num_add (annualMedicalExpenses input) (adminFee r)) plan_fee \<and>
           savings r = num_sub (requiredPersonalIncome r) (totalBusinessCost r) \<and>
           annualPlanFee r = plan_fee \<and>
           breakEven r =
             num_div (num_mul plan_fee (num_sub (Fin 1) (marginalTaxRate r))) (marginalTaxRate r)"
proof -
  let ?input = "input\<lparr>adminFeeRate := fee_rate, CalculatorInput.annualPlanFee := plan_fee\<rparr>"
  have "\<not> num_le (annualIncome ?input) (Fin 0)"
    using num_gt_not_le [OF assms(1)] by simp
  moreover have "\<not> num_lt (annualMedicalExpenses ?input) (Fin 0)"
    using num_ge_not_lt [OF assms(2)] by simp
  moreover have "PROVINCES (province ?input) = Some p"
    using assms(3) by simp
  ultimately obtain f g where "calculate ?input = Inr (comparison ?input (Fin f) (Fin g))"
    using calculate_valid by blast
  then show ?thesis
    by (simp add: comparison_fields)
qed

text \<open>A fee rate of \<open>-0.5\<close> and a plan fee of \<open>-100\<close> on the documented example.\<close>

theorem calculate_fees_unvalidated_witness:
  "num_gt (annualIncome ontario_example) (Fin 0) \<and>
   num_ge (annualMedicalExpenses ontario_example) (Fin 0) \<and>
   PROVINCES (province ontario_example) = Some ON \<and>
   (\<exists>r. calculate (ontario_example\<lparr>adminFeeRate := Fin (- 0.5),
            CalculatorInput.annualPlanFee := Fin (- 100)\<rparr>) = Inr r \<and>
      adminFee r = Fin (- 1500) \<and> totalBusinessCost r = Fin 1400 \<and>
      annualPlanFee r = Fin (- 100))"
  using calculate_fees_unvalidated [where input = ontario_example and p = ON
      and fee_rate = "Fin (- 0.5)" and plan_fee = "Fin (- 100)"]
    PROVINCES_ON
  by (auto simp: ontario_example_def num_gt_def num_ge_def)

end
